theory Spec2Isabelle
  imports Main "HOL-Library.Product_Lexorder"
begin

section \<open>SQL values\<close>

text \<open>
  The stored procedures of the gameweek migration are PL/pgSQL. A nullable column is an
  \<open>option\<close>, \<open>None\<close> being NULL. A boolean expression of a WHERE, IF or CASE WHEN is
  three-valued: \<open>None\<close> is SQL's unknown, and the row is kept (the branch is taken) only
  when the expression is true. Instants (TIMESTAMPTZ) and times of day (TIMETZ) are
  integers, the number of microseconds PostgreSQL stores; identifiers (UUID) are natural numbers, ordered as
  ORDER BY orders them. INTEGER columns are unbounded integers here: ordinals and point
  totals are taken to stay inside PostgreSQL's 32-bit range, where its arithmetic does
  not raise.
\<close>

type_synonym sqlbool = "bool option"
type_synonym timestamptz = int
type_synonym timetz = int
type_synonym uuid = nat

definition is_true :: "sqlbool \<Rightarrow> bool" where
  "is_true b = (b = Some True)"

definition sql_and :: "sqlbool \<Rightarrow> sqlbool \<Rightarrow> sqlbool" where
  "sql_and a b =
     (if a = Some False \<or> b = Some False then Some False
      else if a = None \<or> b = None then None
      else Some True)"

definition sql_or :: "sqlbool \<Rightarrow> sqlbool \<Rightarrow> sqlbool" where
  "sql_or a b =
     (if a = Some True \<or> b = Some True then Some True
      else if a = None \<or> b = None then None
      else Some False)"

definition sql_lt :: "int option \<Rightarrow> int option \<Rightarrow> sqlbool" where
  "sql_lt a b = (case (a, b) of (Some x, Some y) \<Rightarrow> Some (x < y) | _ \<Rightarrow> None)"

definition sql_le :: "int option \<Rightarrow> int option \<Rightarrow> sqlbool" where
  "sql_le a b = (case (a, b) of (Some x, Some y) \<Rightarrow> Some (x \<le> y) | _ \<Rightarrow> None)"

definition sql_gt :: "int option \<Rightarrow> int option \<Rightarrow> sqlbool" where
  "sql_gt a b = sql_lt b a"

definition sql_ge :: "int option \<Rightarrow> int option \<Rightarrow> sqlbool" where
  "sql_ge a b = sql_le b a"

definition is_not_null :: "'a option \<Rightarrow> sqlbool" where
  "is_not_null x = Some (x \<noteq> None)"

definition coalesce :: "int option \<Rightarrow> int \<Rightarrow> int" where
  "coalesce x d = (case x of None \<Rightarrow> d | Some v \<Rightarrow> v)"

text \<open>\<open>LIMIT 1\<close>, and \<open>SELECT ... INTO\<close> of a query: the first row, NULL when there is none.\<close>

definition limit1 :: "'a list \<Rightarrow> 'a option" where
  "limit1 xs = (case xs of [] \<Rightarrow> None | x # _ \<Rightarrow> Some x)"

section \<open>Errors and operator resolution\<close>

text \<open>
  An exception aborts the call of a procedure and PostgreSQL rolls its writes back, so
  the database after a failed call is the database before it. The procedures fail in
  two ways: \<open>finalize_gameweek\<close> raises \<open>'Cannot finalize gameweek %. Not all matches are
  completed.'\<close>, and the analysis of a statement raises \<open>operator does not exist\<close> when
  it compares operands of two types for which PostgreSQL has no comparison operator.

  In the SQL text of \<open>update_gameweek_status\<close> and \<open>transfers_allowed\<close> the word
  \<open>current_time\<close> is the SQL keyword CURRENT_TIME, of type time with time zone: a
  reserved word is never a column reference, so the variable that both procedures
  declare under this name (\<open>current_time TIMESTAMPTZ := now()\<close>) is never read. The
  columns \<open>deadline_time\<close>, \<open>start_time\<close> and \<open>end_time\<close> are timestamps with time
  zone, as the casts of the migration's last UPDATE of \<open>gameweeks\<close> show. PostgreSQL
  compares two values of one of these types, and has neither a comparison operator nor
  an implicit cast between the two. PL/pgSQL analyses a statement when it first
  executes it, whatever the rows of the table: the statements before the first such
  comparison run, and a branch that is not taken raises nothing.
\<close>

datatype sql_type = Timetz | Timestamptz

datatype error = Operator_does_not_exist sql_type sql_type | Not_all_matches_completed int

definition resolve_comparison :: "sql_type \<Rightarrow> sql_type \<Rightarrow> error + unit" where
  "resolve_comparison l r = (if l = r then Inr () else Inl (Operator_does_not_exist l r))"

definition current_time_type :: sql_type where
  "current_time_type = Timetz"

definition gameweek_time_type :: sql_type where
  "gameweek_time_type = Timestamptz"

text \<open>
  The analysis of a statement that compares \<open>current_time\<close> with one of the three
  columns; every such statement of the two procedures uses \<open>>=\<close>, \<open><=\<close>, \<open><\<close> or \<open>>\<close>
  between these two types only.
\<close>

definition analyse_time_comparison :: "error + unit" where
  "analyse_time_comparison = resolve_comparison current_time_type gameweek_time_type"

section \<open>The gameweeks table\<close>

text \<open>
  Modelled from the spec: the CREATE TABLE statement of \<open>gameweeks\<close> is not among the
  sources. The columns are those the procedures read and write: the ordinal, the three
  instants, which the procedures test with IS NOT NULL and which are therefore nullable,
  the lifecycle status, a text that the specification lists as upcoming, active, locked
  or finalized, and the three flags.
\<close>

record gameweek =
  gameweek_number :: int
  deadline_time :: "timestamptz option"
  start_time :: "timestamptz option"
  end_time :: "timestamptz option"
  status :: string
  is_current :: bool
  is_next :: bool
  is_finished :: bool

subsection \<open>\<open>update_gameweek_status\<close>\<close>

text \<open>
  The parameter \<open>current_time\<close> of the model is the value of the SQL expression
  \<open>current_time\<close> when the procedure runs. The table is a list of rows; an UPDATE maps
  over it. The predicates below are what a WHERE or a CASE computes on a row once the
  analysis of its statement has succeeded: the operands of a comparison then have one
  type and compare as the numbers they hold.
\<close>

text \<open>\<open>WHERE (current_time >= start_time AND current_time <= end_time) OR status = 'active'\<close>\<close>

definition current_by_time_or_status :: "timetz \<Rightarrow> gameweek \<Rightarrow> bool" where
  "current_by_time_or_status current_time g =
     is_true (sql_or
       (sql_and (sql_ge (Some current_time) (start_time g))
                (sql_le (Some current_time) (end_time g)))
       (Some (status g = ''active'')))"

text \<open>\<open>WHERE status IN ('upcoming', 'locked') OR current_time < start_time\<close>\<close>

definition current_by_upcoming :: "timetz \<Rightarrow> gameweek \<Rightarrow> bool" where
  "current_by_upcoming current_time g =
     is_true (sql_or
       (Some (status g = ''upcoming'' \<or> status g = ''locked''))
       (sql_lt (Some current_time) (start_time g)))"

text \<open>\<open>SELECT gameweek_number ... WHERE p ORDER BY gameweek_number LIMIT 1\<close>\<close>

definition first_gameweek_number :: "(gameweek \<Rightarrow> bool) \<Rightarrow> gameweek list \<Rightarrow> int option" where
  "first_gameweek_number p gws = limit1 (sort (map gameweek_number (filter p gws)))"

text \<open>
  The two SELECTs for \<open>current_gw\<close>, each analysed when it is executed; the second is
  executed only when the first has found no row.
\<close>

definition select_current_by_time_or_status :: "timetz \<Rightarrow> gameweek list \<Rightarrow> error + int option" where
  "select_current_by_time_or_status current_time gws =
     (case analyse_time_comparison of
        Inl e \<Rightarrow> Inl e
      | Inr _ \<Rightarrow> Inr (first_gameweek_number (current_by_time_or_status current_time) gws))"

definition select_current_by_upcoming :: "timetz \<Rightarrow> gameweek list \<Rightarrow> error + int option" where
  "select_current_by_upcoming current_time gws =
     (case analyse_time_comparison of
        Inl e \<Rightarrow> Inl e
      | Inr _ \<Rightarrow> Inr (first_gameweek_number (current_by_upcoming current_time) gws))"

definition find_current_gw :: "timetz \<Rightarrow> gameweek list \<Rightarrow> error + int option" where
  "find_current_gw current_time gws =
     (case select_current_by_time_or_status current_time gws of
        Inl e \<Rightarrow> Inl e
      | Inr (Some c) \<Rightarrow> Inr (Some c)
      | Inr None \<Rightarrow> select_current_by_upcoming current_time gws)"

text \<open>\<open>SELECT gameweek_number ... WHERE gameweek_number > current_gw ORDER BY gameweek_number LIMIT 1\<close>\<close>

definition find_next_gw :: "int \<Rightarrow> gameweek list \<Rightarrow> int option" where
  "find_next_gw c gws = first_gameweek_number (\<lambda>g. gameweek_number g > c) gws"

definition set_flags :: "int option \<Rightarrow> gameweek list \<Rightarrow> gameweek list" where
  "set_flags current_gw gws =
     (case current_gw of
        None \<Rightarrow> gws
      | Some c \<Rightarrow>
          (let gws1 = map (\<lambda>g. if gameweek_number g = c then g\<lparr>is_current := True\<rparr> else g) gws;
               next_gw = find_next_gw c gws1
           in case next_gw of
                None \<Rightarrow> gws1
              | Some n \<Rightarrow> map (\<lambda>g. if gameweek_number g = n then g\<lparr>is_next := True\<rparr> else g) gws1))"

text \<open>The CASE of the last UPDATE, in the order of its WHEN branches.\<close>

definition status_by_time :: "timetz \<Rightarrow> gameweek \<Rightarrow> string" where
  "status_by_time current_time g =
     (if status g = ''finalized'' then ''finalized''
      else if is_true (sql_and (is_not_null (deadline_time g))
                               (sql_lt (Some current_time) (deadline_time g)))
        then ''upcoming''
      else if is_true (sql_and (sql_and (is_not_null (deadline_time g))
                                        (sql_ge (Some current_time) (deadline_time g)))
                               (sql_lt (Some current_time) (start_time g)))
        then ''locked''
      else if is_true (sql_and (sql_and (is_not_null (start_time g))
                                        (sql_ge (Some current_time) (start_time g)))
                               (sql_le (Some current_time) (end_time g)))
        then ''active''
      else if is_true (sql_and (is_not_null (end_time g))
                               (sql_gt (Some current_time) (end_time g)))
        then ''finalized''
      else status g)"

text \<open>\<open>WHERE deadline_time IS NOT NULL AND start_time IS NOT NULL AND end_time IS NOT NULL\<close>\<close>

definition has_all_times :: "gameweek \<Rightarrow> bool" where
  "has_all_times g =
     is_true (sql_and (sql_and (is_not_null (deadline_time g)) (is_not_null (start_time g)))
                      (is_not_null (end_time g)))"

definition update_status_row :: "timetz \<Rightarrow> gameweek \<Rightarrow> gameweek" where
  "update_status_row current_time g =
     (if has_all_times g then g\<lparr>status := status_by_time current_time g\<rparr> else g)"

text \<open>The last UPDATE, analysed when it is executed.\<close>

definition update_statuses :: "timetz \<Rightarrow> gameweek list \<Rightarrow> error + gameweek list" where
  "update_statuses current_time gws =
     (case analyse_time_comparison of
        Inl e \<Rightarrow> Inl e
      | Inr _ \<Rightarrow> Inr (map (update_status_row current_time) gws))"

text \<open>\<open>UPDATE gameweeks SET is_current = false, is_next = false\<close>\<close>

definition reset_flags :: "gameweek \<Rightarrow> gameweek" where
  "reset_flags g = g\<lparr>is_current := False, is_next := False\<rparr>"

text \<open>
  The procedure: the reset of the flags runs, then the SELECTs for \<open>current_gw\<close>, the
  setting of the flags and the UPDATE of the statuses, each statement on the table the
  statements before it have left.
\<close>

definition update_gameweek_status :: "timetz \<Rightarrow> gameweek list \<Rightarrow> error + gameweek list" where
  "update_gameweek_status current_time gws =
     (let gws0 = map reset_flags gws in
      case find_current_gw current_time gws0 of
        Inl e \<Rightarrow> Inl e
      | Inr current_gw \<Rightarrow> update_statuses current_time (set_flags current_gw gws0))"

text \<open>The table a caller finds after the call: a call that raises is rolled back.\<close>

definition gameweeks_after_update :: "timetz \<Rightarrow> gameweek list \<Rightarrow> gameweek list" where
  "gameweeks_after_update current_time gws =
     (case update_gameweek_status current_time gws of Inl e \<Rightarrow> gws | Inr gws' \<Rightarrow> gws')"

subsection \<open>\<open>transfers_allowed\<close>\<close>

text \<open>
  The three EXISTS queries, and the control flow of the procedure with its two local
  booleans. The first query compares no time; the other two are analysed when they are
  executed. A RETURN ends the procedure, so the statements after the inner IF are the
  else-branch of that IF.
\<close>

definition exists_active :: "gameweek list \<Rightarrow> bool" where
  "exists_active gws = list_ex (\<lambda>g. status g = ''active'') gws"

definition exists_deadline_passed :: "timetz \<Rightarrow> gameweek list \<Rightarrow> error + bool" where
  "exists_deadline_passed current_time gws =
     (case analyse_time_comparison of
        Inl e \<Rightarrow> Inl e
      | Inr _ \<Rightarrow>
          Inr (list_ex (\<lambda>g. is_true (sql_and
                 (sql_and (Some (status g = ''upcoming'' \<or> status g = ''locked''))
                          (is_not_null (deadline_time g)))
                 (sql_ge (Some current_time) (deadline_time g)))) gws))"

definition exists_upcoming_deadline_passed :: "timetz \<Rightarrow> gameweek list \<Rightarrow> error + bool" where
  "exists_upcoming_deadline_passed current_time gws =
     (case analyse_time_comparison of
        Inl e \<Rightarrow> Inl e
      | Inr _ \<Rightarrow>
          Inr (list_ex (\<lambda>g. is_true (sql_and
                 (sql_and (Some (status g = ''upcoming'')) (is_not_null (deadline_time g)))
                 (sql_ge (Some current_time) (deadline_time g)))) gws))"

definition transfers_allowed :: "timetz \<Rightarrow> gameweek list \<Rightarrow> error + bool" where
  "transfers_allowed current_time gws =
     (let has_active_gw = exists_active gws in
      if \<not> has_active_gw then
        (case exists_deadline_passed current_time gws of
           Inl e \<Rightarrow> Inl e
         | Inr deadline_passed \<Rightarrow>
             if \<not> deadline_passed then
               (case exists_upcoming_deadline_passed current_time gws of
                  Inl e \<Rightarrow> Inl e
                | Inr found \<Rightarrow>
                    (let deadline_passed = (\<not> found) in Inr (\<not> deadline_passed)))
             else Inr (\<not> deadline_passed))
      else Inr False)"

section \<open>The tables of the points system\<close>

text \<open>
  Modelled from the spec: the CREATE TABLE statements of these tables are not among the
  sources. The columns are those the procedures read or write; a column is nullable
  where the procedures guard it with COALESCE or IS NOT NULL. The aliases of the queries
  (\<open>gs\<close>, \<open>r\<close>, \<open>p\<close>, \<open>fgp\<close>) prefix a column whose name another table has too.
  A table is the list of its rows, in the order a query without ORDER BY returns them;
  no key is assumed unique unless a theorem says so.
\<close>

record real_match =
  rm_gameweek :: int
  rm_status :: string

record roster =
  r_fantasy_team_id :: uuid
  r_player_id :: uuid
  is_starter :: bool
  is_captain :: bool
  is_vice_captain :: bool

record player =
  p_player_id :: uuid
  position :: string

record gameweek_score =
  gs_player_id :: uuid
  gs_gameweek :: int
  gs_total_points :: "int option"
  gs_minutes_played :: "int option"

record fantasy_team =
  fantasy_team_id :: uuid
  league_id :: "uuid option"
  total_points :: "int option"
  gameweek_points :: "int option"
  current_gameweek :: "int option"
  transfers_made_this_gw :: "int option"
  transfers_banked :: "int option"
  rank :: "int option"

record fantasy_team_gameweek_point =
  fgp_fantasy_team_id :: uuid
  fgp_gameweek :: int
  points :: int
  rank_in_league :: "int option"

record db =
  gameweeks :: "gameweek list"
  real_matches :: "real_match list"
  fantasy_teams :: "fantasy_team list"
  rosters :: "roster list"
  players :: "player list"
  gameweek_scores :: "gameweek_score list"
  fantasy_team_gameweek_points :: "fantasy_team_gameweek_point list"

section \<open>\<open>calculate_fantasy_team_points\<close>\<close>

text \<open>
  \<open>LEFT JOIN gameweek_scores gs ON r.player_id = gs.player_id AND gs.gameweek = p_gameweek\<close>:
  the score rows of the player for the gameweek, or one all-NULL row when there is none.
\<close>

definition left_join_scores :: "gameweek_score list \<Rightarrow> int \<Rightarrow> uuid \<Rightarrow> gameweek_score option list" where
  "left_join_scores gss p_gameweek pid =
     (case filter (\<lambda>gs. gs_player_id gs = pid \<and> gs_gameweek gs = p_gameweek) gss of
        [] \<Rightarrow> [None]
      | ms \<Rightarrow> map Some ms)"

definition joined_total_points :: "gameweek_score option \<Rightarrow> int option" where
  "joined_total_points gs = (case gs of None \<Rightarrow> None | Some x \<Rightarrow> gs_total_points x)"

definition joined_minutes_played :: "gameweek_score option \<Rightarrow> int option" where
  "joined_minutes_played gs = (case gs of None \<Rightarrow> None | Some x \<Rightarrow> gs_minutes_played x)"

text \<open>
  \<open>ORDER BY x DESC NULLS LAST\<close> as an ascending sort key. \<open>sort_key\<close> is a stable
  sort: rows the ORDER BY does not tell apart stay in table order, which is one of the
  orders PostgreSQL may return.
\<close>

definition desc_nulls_last :: "int option \<Rightarrow> nat \<times> int" where
  "desc_nulls_last x = (case x of None \<Rightarrow> (1, 0) | Some v \<Rightarrow> (0, - v))"

text \<open>A row of the loop's query; \<open>pr_order_points\<close> is \<open>gs.total_points\<close>, which only orders.\<close>

record player_record =
  pr_player_id :: uuid
  pr_is_starter :: bool
  pr_is_captain :: bool
  pr_is_vice_captain :: bool
  pr_position :: string
  player_points :: int
  minutes_played :: int
  pr_order_points :: "int option"

definition roster_rows :: "db \<Rightarrow> uuid \<Rightarrow> int \<Rightarrow> player_record list" where
  "roster_rows d p_fantasy_team_id p_gameweek =
     sort_key (\<lambda>row. (if pr_is_starter row then 0 else 1 :: nat,
                       desc_nulls_last (pr_order_points row)))
       [\<lparr>pr_player_id = r_player_id r, pr_is_starter = is_starter r,
         pr_is_captain = is_captain r, pr_is_vice_captain = is_vice_captain r,
         pr_position = position p,
         player_points = coalesce (joined_total_points gs) 0,
         minutes_played = coalesce (joined_minutes_played gs) 0,
         pr_order_points = joined_total_points gs\<rparr>.
        r \<leftarrow> rosters d, r_fantasy_team_id r = p_fantasy_team_id,
        p \<leftarrow> players d, r_player_id r = p_player_id p,
        gs \<leftarrow> left_join_scores (gameweek_scores d) p_gameweek (r_player_id r)]"

record substitute_record =
  sub_player_id :: uuid
  sub_points :: int
  sub_minutes :: int
  sub_order_points :: "int option"

text \<open>The bench rows of the substitute query, before its ORDER BY and LIMIT.\<close>

definition substitute_candidates :: "db \<Rightarrow> uuid \<Rightarrow> int \<Rightarrow> string \<Rightarrow> substitute_record list" where
  "substitute_candidates d p_fantasy_team_id p_gameweek pos =
     [\<lparr>sub_player_id = r_player_id r2,
       sub_points = coalesce (joined_total_points gs2) 0,
       sub_minutes = coalesce (joined_minutes_played gs2) 0,
       sub_order_points = joined_total_points gs2\<rparr>.
      r2 \<leftarrow> rosters d, r_fantasy_team_id r2 = p_fantasy_team_id \<and> is_starter r2 = False,
      p2 \<leftarrow> players d, r_player_id r2 = p_player_id p2 \<and> position p2 = pos,
      gs2 \<leftarrow> left_join_scores (gameweek_scores d) p_gameweek (r_player_id r2),
      coalesce (joined_minutes_played gs2) 0 > 0]"

definition find_substitute :: "db \<Rightarrow> uuid \<Rightarrow> int \<Rightarrow> string \<Rightarrow> substitute_record option" where
  "find_substitute d p_fantasy_team_id p_gameweek pos =
     limit1 (sort_key (\<lambda>s. desc_nulls_last (sub_order_points s))
               (substitute_candidates d p_fantasy_team_id p_gameweek pos))"

text \<open>
  The body of the FOR loop on the procedure's variables \<open>total_points\<close> (here
  \<open>total_pts\<close>, the fantasy team's column having the name) and \<open>captain_points\<close>. The substitute
  record is found when its \<open>player_id\<close> is not NULL, that is when the query has a row.
\<close>

definition loop_body :: "db \<Rightarrow> uuid \<Rightarrow> int \<Rightarrow> player_record \<Rightarrow> int \<times> int \<Rightarrow> int \<times> int" where
  "loop_body d p_fantasy_team_id p_gameweek row acc =
     (case acc of (total_pts, captain_points) \<Rightarrow>
        if pr_is_starter row then
          (if minutes_played row = 0 then
             (case find_substitute d p_fantasy_team_id p_gameweek (pr_position row) of
                Some sub \<Rightarrow>
                  (total_pts + sub_points sub,
                   if pr_is_captain row then sub_points sub else captain_points)
              | None \<Rightarrow> (total_pts, captain_points))
           else
             (total_pts + player_points row,
              if pr_is_captain row then player_points row else captain_points))
        else (total_pts, captain_points))"

definition starters_loop :: "db \<Rightarrow> uuid \<Rightarrow> int \<Rightarrow> int \<times> int" where
  "starters_loop d p_fantasy_team_id p_gameweek =
     fold (loop_body d p_fantasy_team_id p_gameweek)
          (roster_rows d p_fantasy_team_id p_gameweek) (0, 0)"

text \<open>\<open>SELECT player_id INTO vice_captain_id FROM rosters WHERE ... AND is_vice_captain = true\<close>\<close>

definition select_vice_captain_id :: "db \<Rightarrow> uuid \<Rightarrow> uuid option" where
  "select_vice_captain_id d p_fantasy_team_id =
     limit1 [r_player_id r. r \<leftarrow> rosters d,
             r_fantasy_team_id r = p_fantasy_team_id \<and> is_vice_captain r = True]"

text \<open>
  \<open>SELECT COALESCE(gs.total_points, 0) INTO captain_points FROM gameweek_scores gs WHERE ...\<close>:
  NULL when the vice-captain has no score row.
\<close>

definition select_vice_captain_points :: "db \<Rightarrow> int \<Rightarrow> uuid \<Rightarrow> int option" where
  "select_vice_captain_points d p_gameweek vice_captain_id =
     limit1 [coalesce (gs_total_points gs) 0. gs \<leftarrow> gameweek_scores d,
             gs_player_id gs = vice_captain_id \<and> gs_gameweek gs = p_gameweek]"

definition calculate_fantasy_team_points :: "db \<Rightarrow> uuid \<Rightarrow> int \<Rightarrow> int" where
  "calculate_fantasy_team_points d p_fantasy_team_id p_gameweek =
     (case starters_loop d p_fantasy_team_id p_gameweek of (total_pts, captain_points) \<Rightarrow>
        if captain_points > 0 then total_pts + captain_points
        else
          (case select_vice_captain_id d p_fantasy_team_id of
             None \<Rightarrow> total_pts
           | Some vice_captain_id \<Rightarrow>
               (case select_vice_captain_points d p_gameweek vice_captain_id of
                  None \<Rightarrow> total_pts
                | Some captain_points \<Rightarrow>
                    if captain_points > 0 then total_pts + captain_points else total_pts)))"


subsection \<open>Quantities of the calculation\<close>

text \<open>
  What the loop body adds to \<open>total_points\<close> for a starting row, and what the ELSIF
  branch adds: the vice-captain's recorded score when it is positive.
\<close>

definition row_contribution :: "db \<Rightarrow> uuid \<Rightarrow> int \<Rightarrow> player_record \<Rightarrow> int" where
  "row_contribution d p_fantasy_team_id p_gameweek row =
     (if minutes_played row = 0 then
        (case find_substitute d p_fantasy_team_id p_gameweek (pr_position row) of
           Some sub \<Rightarrow> sub_points sub
         | None \<Rightarrow> 0)
      else player_points row)"

definition vice_captain_bonus :: "db \<Rightarrow> uuid \<Rightarrow> int \<Rightarrow> int" where
  "vice_captain_bonus d p_fantasy_team_id p_gameweek =
     (case select_vice_captain_id d p_fantasy_team_id of
        None \<Rightarrow> 0
      | Some vice_captain_id \<Rightarrow>
          (case select_vice_captain_points d p_gameweek vice_captain_id of
             None \<Rightarrow> 0
           | Some v \<Rightarrow> if v > 0 then v else 0))"

text \<open>
  The specification's wording of a starter's contribution, to compare with the loop:
  the points of the team's bench players of a position who have nonzero minutes, and
  the starter's own points when the starter played more than zero minutes, the highest
  of those bench points otherwise, zero when there is none.
\<close>

definition spec_eligible_substitute_points :: "db \<Rightarrow> uuid \<Rightarrow> int \<Rightarrow> string \<Rightarrow> int list" where
  "spec_eligible_substitute_points d p_fantasy_team_id p_gameweek pos =
     [coalesce (joined_total_points gs) 0.
      r \<leftarrow> rosters d, r_fantasy_team_id r = p_fantasy_team_id \<and> \<not> is_starter r,
      p \<leftarrow> players d, r_player_id r = p_player_id p \<and> position p = pos,
      gs \<leftarrow> left_join_scores (gameweek_scores d) p_gameweek (r_player_id r),
      coalesce (joined_minutes_played gs) 0 \<noteq> 0]"

definition spec_starter_contribution :: "db \<Rightarrow> uuid \<Rightarrow> int \<Rightarrow> player_record \<Rightarrow> int" where
  "spec_starter_contribution d p_fantasy_team_id p_gameweek row =
     (if minutes_played row > 0 then player_points row
      else (case spec_eligible_substitute_points d p_fantasy_team_id p_gameweek (pr_position row) of
              [] \<Rightarrow> 0
            | ps \<Rightarrow> Max (set ps)))"

section \<open>\<open>finalize_gameweek\<close>\<close>

text \<open>
  \<open>RAISE EXCEPTION 'Cannot finalize gameweek %. Not all matches are completed.'\<close> is the
  error \<open>Not_all_matches_completed\<close>; the procedure returns the new database otherwise.
  No statement of this procedure or of the points calculator names \<open>current_time\<close>.
\<close>

text \<open>\<open>EXISTS (SELECT 1 FROM real_matches WHERE gameweek = p_gameweek AND status != 'completed')\<close>\<close>

definition exists_incomplete_match :: "db \<Rightarrow> int \<Rightarrow> bool" where
  "exists_incomplete_match d p_gameweek =
     list_ex (\<lambda>m. rm_gameweek m = p_gameweek \<and> rm_status m \<noteq> ''completed'') (real_matches d)"

text \<open>
  \<open>INSERT ... ON CONFLICT (fantasy_team_id, gameweek) DO UPDATE SET points = EXCLUDED.points\<close>;
  a new row has no rank yet.
\<close>

definition upsert_points ::
  "uuid \<Rightarrow> int \<Rightarrow> int \<Rightarrow> fantasy_team_gameweek_point list \<Rightarrow> fantasy_team_gameweek_point list" where
  "upsert_points t p_gameweek team_points rows =
     (if list_ex (\<lambda>r. fgp_fantasy_team_id r = t \<and> fgp_gameweek r = p_gameweek) rows
      then map (\<lambda>r. if fgp_fantasy_team_id r = t \<and> fgp_gameweek r = p_gameweek
                      then r\<lparr>points := team_points\<rparr> else r) rows
      else rows @ [\<lparr>fgp_fantasy_team_id = t, fgp_gameweek = p_gameweek,
                     points = team_points, rank_in_league = None\<rparr>])"

text \<open>The SET list of \<open>UPDATE fantasy_teams\<close>; every right-hand side reads the old row.\<close>

definition settle_team :: "int \<Rightarrow> int \<Rightarrow> fantasy_team \<Rightarrow> fantasy_team" where
  "settle_team team_points p_gameweek ft =
     ft\<lparr>total_points :=
          Some (coalesce (total_points ft) 0 + team_points - coalesce (gameweek_points ft) 0),
        gameweek_points := Some team_points,
        current_gameweek := Some (p_gameweek + 1),
        transfers_made_this_gw := Some 0,
        transfers_banked := Some (min (coalesce (transfers_banked ft) 0 + 1) 1)\<rparr>"

definition team_loop_body :: "int \<Rightarrow> uuid \<Rightarrow> db \<Rightarrow> db" where
  "team_loop_body p_gameweek t d =
     (let team_points = calculate_fantasy_team_points d t p_gameweek in
      d\<lparr>fantasy_team_gameweek_points :=
           upsert_points t p_gameweek team_points (fantasy_team_gameweek_points d),
        fantasy_teams :=
           map (\<lambda>ft. if fantasy_team_id ft = t then settle_team team_points p_gameweek ft else ft)
               (fantasy_teams d)\<rparr>)"

text \<open>
  \<open>FOR team_record IN SELECT fantasy_team_id, league_id FROM fantasy_teams ORDER BY
  fantasy_team_id\<close>: the rows of the query are those of the table when the loop starts.
\<close>

definition team_loop :: "int \<Rightarrow> db \<Rightarrow> db" where
  "team_loop p_gameweek d =
     fold (team_loop_body p_gameweek) (sort (map fantasy_team_id (fantasy_teams d))) d"

text \<open>\<open>SELECT DISTINCT league_id FROM fantasy_teams WHERE league_id IS NOT NULL\<close>\<close>

definition distinct_league_ids :: "db \<Rightarrow> uuid list" where
  "distinct_league_ids d = remdups (List.map_filter league_id (fantasy_teams d))"

text \<open>The inner query of the league ranking: the league's teams by \<open>fgp.points DESC\<close>.\<close>

definition league_order :: "db \<Rightarrow> int \<Rightarrow> uuid \<Rightarrow> uuid list" where
  "league_order d p_gameweek l =
     map fst (sort_key (\<lambda>row. - snd row)
       [(fantasy_team_id ft, points fgp).
        ft \<leftarrow> fantasy_teams d,
        fgp \<leftarrow> fantasy_team_gameweek_points d,
        fantasy_team_id ft = fgp_fantasy_team_id fgp,
        league_id ft = Some l \<and> fgp_gameweek fgp = p_gameweek])"

fun rank_in_league_loop ::
  "int \<Rightarrow> uuid list \<Rightarrow> int \<Rightarrow> fantasy_team_gameweek_point list \<Rightarrow> fantasy_team_gameweek_point list" where
  "rank_in_league_loop p_gameweek [] rank_counter rows = rows"
| "rank_in_league_loop p_gameweek (t # ts) rank_counter rows =
     rank_in_league_loop p_gameweek ts (rank_counter + 1)
       (map (\<lambda>r. if fgp_fantasy_team_id r = t \<and> fgp_gameweek r = p_gameweek
                  then r\<lparr>rank_in_league := Some rank_counter\<rparr> else r) rows)"

definition league_loop_body :: "int \<Rightarrow> uuid \<Rightarrow> db \<Rightarrow> db" where
  "league_loop_body p_gameweek l d =
     d\<lparr>fantasy_team_gameweek_points :=
         rank_in_league_loop p_gameweek (league_order d p_gameweek l) 1
           (fantasy_team_gameweek_points d)\<rparr>"

definition league_loop :: "int \<Rightarrow> db \<Rightarrow> db" where
  "league_loop p_gameweek d = fold (league_loop_body p_gameweek) (distinct_league_ids d) d"

text \<open>
  \<open>ORDER BY total_points DESC, fantasy_team_id\<close>: PostgreSQL puts NULL first in a
  descending order.
\<close>

definition desc_nulls_first :: "int option \<Rightarrow> nat \<times> int" where
  "desc_nulls_first x = (case x of None \<Rightarrow> (0, 0) | Some v \<Rightarrow> (1, - v))"

definition overall_order :: "db \<Rightarrow> uuid list" where
  "overall_order d =
     map fantasy_team_id
       (sort_key (\<lambda>ft. (desc_nulls_first (total_points ft), fantasy_team_id ft)) (fantasy_teams d))"

fun rank_loop :: "uuid list \<Rightarrow> int \<Rightarrow> fantasy_team list \<Rightarrow> fantasy_team list" where
  "rank_loop [] rank_counter fts = fts"
| "rank_loop (t # ts) rank_counter fts =
     rank_loop ts (rank_counter + 1)
       (map (\<lambda>ft. if fantasy_team_id ft = t then ft\<lparr>rank := Some rank_counter\<rparr> else ft) fts)"

definition overall_ranking :: "db \<Rightarrow> db" where
  "overall_ranking d = d\<lparr>fantasy_teams := rank_loop (overall_order d) 1 (fantasy_teams d)\<rparr>"

text \<open>The three UPDATEs of \<open>gameweeks\<close>, in the procedure's order.\<close>

definition mark_finalized :: "int \<Rightarrow> gameweek \<Rightarrow> gameweek" where
  "mark_finalized p_gameweek g =
     (if gameweek_number g = p_gameweek
      then g\<lparr>status := ''finalized'', is_finished := True, is_current := False\<rparr> else g)"

definition mark_current :: "int \<Rightarrow> gameweek \<Rightarrow> gameweek" where
  "mark_current p_gameweek g =
     (if gameweek_number g = p_gameweek + 1
      then g\<lparr>status := ''active'', is_current := True, is_next := False\<rparr> else g)"

definition mark_next :: "int \<Rightarrow> gameweek \<Rightarrow> gameweek" where
  "mark_next p_gameweek g =
     (if gameweek_number g = p_gameweek + 2 then g\<lparr>is_next := True\<rparr> else g)"

definition advance_gameweeks :: "int \<Rightarrow> db \<Rightarrow> db" where
  "advance_gameweeks p_gameweek d =
     d\<lparr>gameweeks :=
         map (mark_next p_gameweek)
           (map (mark_current p_gameweek)
             (map (mark_finalized p_gameweek) (gameweeks d)))\<rparr>"

definition finalize_gameweek :: "db \<Rightarrow> int \<Rightarrow> error + db" where
  "finalize_gameweek d p_gameweek =
     (if exists_incomplete_match d p_gameweek
      then Inl (Not_all_matches_completed p_gameweek)
      else Inr (advance_gameweeks p_gameweek
                 (overall_ranking
                   (league_loop p_gameweek
                     (team_loop p_gameweek d)))))"

text \<open>The database a caller finds after the call.\<close>

definition db_after_finalize :: "db \<Rightarrow> int \<Rightarrow> db" where
  "db_after_finalize d p_gameweek =
     (case finalize_gameweek d p_gameweek of Inl e \<Rightarrow> d | Inr d' \<Rightarrow> d')"


section \<open>Example data\<close>

text \<open>
  The worked example of the specification: team 1 starts players 1 (captain, 5 points),
  2 (vice-captain, 3 points) and 3 (a defender who played no minute); player 4, a
  defender on the bench, played and scored 4. Gameweek 1 is being played and all its
  matches are completed; team 1 enters it with 10 points in total, 2 of them recorded
  as its gameweek points.
\<close>

definition example_gameweeks :: "gameweek list" where
  "example_gameweeks =
     [\<lparr>gameweek_number = 1, deadline_time = Some 0, start_time = Some 10, end_time = Some 20,
       status = ''active'', is_current = True, is_next = False, is_finished = False\<rparr>,
      \<lparr>gameweek_number = 2, deadline_time = Some 30, start_time = Some 40, end_time = Some 50,
       status = ''upcoming'', is_current = False, is_next = True, is_finished = False\<rparr>,
      \<lparr>gameweek_number = 3, deadline_time = Some 60, start_time = Some 70, end_time = Some 80,
       status = ''upcoming'', is_current = False, is_next = False, is_finished = False\<rparr>]"

definition example_db :: db where
  "example_db =
     \<lparr>gameweeks = example_gameweeks,
      real_matches = [\<lparr>rm_gameweek = 1, rm_status = ''completed''\<rparr>,
                      \<lparr>rm_gameweek = 2, rm_status = ''scheduled''\<rparr>],
      fantasy_teams =
        [\<lparr>fantasy_team_id = 1, league_id = Some 1, total_points = Some 10,
          gameweek_points = Some 2, current_gameweek = Some 1,
          transfers_made_this_gw = Some 1, transfers_banked = Some 0, rank = None\<rparr>],
      rosters =
        [\<lparr>r_fantasy_team_id = 1, r_player_id = 1, is_starter = True,
          is_captain = True, is_vice_captain = False\<rparr>,
         \<lparr>r_fantasy_team_id = 1, r_player_id = 2, is_starter = True,
          is_captain = False, is_vice_captain = True\<rparr>,
         \<lparr>r_fantasy_team_id = 1, r_player_id = 3, is_starter = True,
          is_captain = False, is_vice_captain = False\<rparr>,
         \<lparr>r_fantasy_team_id = 1, r_player_id = 4, is_starter = False,
          is_captain = False, is_vice_captain = False\<rparr>],
      players =
        [\<lparr>p_player_id = 1, position = ''FWD''\<rparr>, \<lparr>p_player_id = 2, position = ''MID''\<rparr>,
         \<lparr>p_player_id = 3, position = ''DEF''\<rparr>, \<lparr>p_player_id = 4, position = ''DEF''\<rparr>],
      gameweek_scores =
        [\<lparr>gs_player_id = 1, gs_gameweek = 1, gs_total_points = Some 5, gs_minutes_played = Some 90\<rparr>,
         \<lparr>gs_player_id = 2, gs_gameweek = 1, gs_total_points = Some 3, gs_minutes_played = Some 90\<rparr>,
         \<lparr>gs_player_id = 3, gs_gameweek = 1, gs_total_points = Some 0, gs_minutes_played = Some 0\<rparr>,
         \<lparr>gs_player_id = 4, gs_gameweek = 1, gs_total_points = Some 4, gs_minutes_played = Some 45\<rparr>],
      fantasy_team_gameweek_points = []\<rparr>"


text \<open>
  A team whose captain played and scored -1, with a vice-captain who scored 3; and a
  team without any starter, whose only player is a vice-captain on the bench with 5.
\<close>

definition negative_captain_db :: db where
  "negative_captain_db =
     example_db\<lparr>
       rosters :=
         [\<lparr>r_fantasy_team_id = 1, r_player_id = 1, is_starter = True,
           is_captain = True, is_vice_captain = False\<rparr>,
          \<lparr>r_fantasy_team_id = 1, r_player_id = 2, is_starter = True,
           is_captain = False, is_vice_captain = True\<rparr>],
       gameweek_scores :=
         [\<lparr>gs_player_id = 1, gs_gameweek = 1, gs_total_points = Some (- 1), gs_minutes_played = Some 90\<rparr>,
          \<lparr>gs_player_id = 2, gs_gameweek = 1, gs_total_points = Some 3, gs_minutes_played = Some 90\<rparr>]\<rparr>"

definition bench_only_db :: db where
  "bench_only_db =
     example_db\<lparr>
       rosters :=
         [\<lparr>r_fantasy_team_id = 1, r_player_id = 1, is_starter = False,
           is_captain = False, is_vice_captain = True\<rparr>]\<rparr>"

text \<open>
  Gameweek 1 still marked active after its end time has passed (at instant 25); two
  upcoming gameweeks that no call has flagged yet; and gameweek 1 with a successor that
  is already finalized.
\<close>

definition stale_active_gameweeks :: "gameweek list" where
  "stale_active_gameweeks =
     [\<lparr>gameweek_number = 1, deadline_time = Some 0, start_time = Some 10, end_time = Some 20,
       status = ''active'', is_current = True, is_next = False, is_finished = False\<rparr>,
      \<lparr>gameweek_number = 2, deadline_time = Some 30, start_time = Some 40, end_time = Some 50,
       status = ''upcoming'', is_current = False, is_next = True, is_finished = False\<rparr>]"

definition unflagged_gameweeks :: "gameweek list" where
  "unflagged_gameweeks =
     [\<lparr>gameweek_number = 1, deadline_time = Some 10, start_time = Some 20, end_time = Some 30,
       status = ''upcoming'', is_current = False, is_next = False, is_finished = False\<rparr>,
      \<lparr>gameweek_number = 2, deadline_time = Some 40, start_time = Some 50, end_time = Some 60,
       status = ''upcoming'', is_current = False, is_next = False, is_finished = False\<rparr>]"

definition finalized_successor_db :: db where
  "finalized_successor_db =
     example_db\<lparr>gameweeks :=
       [\<lparr>gameweek_number = 1, deadline_time = Some 0, start_time = Some 10, end_time = Some 20,
         status = ''active'', is_current = True, is_next = False, is_finished = False\<rparr>,
        \<lparr>gameweek_number = 2, deadline_time = Some 30, start_time = Some 40, end_time = Some 50,
         status = ''finalized'', is_current = False, is_next = False, is_finished = True\<rparr>]\<rparr>"


section \<open>The gameweek status resolver\<close>

text \<open>
  The first SELECT of the procedure compares \<open>current_time\<close>, a time with time zone,
  with \<open>start_time\<close>, a timestamp with time zone. Its analysis fails, so every call
  raises after the reset of the flags, and the reset is rolled back with the call.
\<close>

lemma analyse_time_comparison_fails:
  "analyse_time_comparison = Inl (Operator_does_not_exist Timetz Timestamptz)"
  by (simp add: analyse_time_comparison_def resolve_comparison_def current_time_type_def
      gameweek_time_type_def)

lemma update_gameweek_status_raises:
  "update_gameweek_status current_time gws = Inl (Operator_does_not_exist Timetz Timestamptz)"
  by (simp add: update_gameweek_status_def Let_def find_current_gw_def
      select_current_by_time_or_status_def analyse_time_comparison_fails)

lemma gameweeks_after_update_unchanged:
  "gameweeks_after_update current_time gws = gws"
  by (simp add: gameweeks_after_update_def update_gameweek_status_raises)

text \<open>
  Claim C5 fails on the code. At an instant between the deadline (30) and the start
  (40) of gameweek 2, after the end (20) of gameweek 1, the claim makes gameweek 1
  finalized and gameweek 2 locked. The procedure raises, at this instant as at any
  other, and the statuses stay active, upcoming, upcoming.
\<close>

theorem update_gameweek_status_recomputes_nothing:
  "update_gameweek_status current_time example_gameweeks =
     Inl (Operator_does_not_exist Timetz Timestamptz) \<and>
   map status (gameweeks_after_update current_time example_gameweeks) =
     [''active'', ''upcoming'', ''upcoming'']"
  by (simp add: update_gameweek_status_raises gameweeks_after_update_unchanged
      example_gameweeks_def)

text \<open>
  Claim C6. Every call raises and leaves the table as it found it, so the table after
  two calls in succession, statuses and both flags, is the table after the first call.
\<close>

theorem update_gameweek_status_idempotent:
  "update_gameweek_status current_time gws = Inl (Operator_does_not_exist Timetz Timestamptz) \<and>
   update_gameweek_status current_time (gameweeks_after_update current_time gws) =
     Inl (Operator_does_not_exist Timetz Timestamptz) \<and>
   gameweeks_after_update current_time (gameweeks_after_update current_time gws) =
     gameweeks_after_update current_time gws"
  by (simp add: update_gameweek_status_raises gameweeks_after_update_unchanged)

theorem update_gameweek_status_idempotent_witness:
  "gameweeks_after_update 25 (gameweeks_after_update 25 stale_active_gameweeks) =
     gameweeks_after_update 25 stale_active_gameweeks \<and>
   map is_current (gameweeks_after_update 25 stale_active_gameweeks) = [True, False] \<and>
   map is_next (gameweeks_after_update 25 stale_active_gameweeks) = [False, True]"
  using update_gameweek_status_idempotent [of 25 stale_active_gameweeks]
  by (simp add: gameweeks_after_update_def stale_active_gameweeks_def)

text \<open>
  Claim C7 fails on the code. Of two upcoming gameweeks that carry no flag, the first
  qualifies as current and the second as next; the procedure raises and leaves the
  table without a current and without a next gameweek.
\<close>

theorem update_gameweek_status_sets_no_flag:
  "update_gameweek_status current_time unflagged_gameweeks =
     Inl (Operator_does_not_exist Timetz Timestamptz) \<and>
   map status unflagged_gameweeks = [''upcoming'', ''upcoming''] \<and>
   filter is_current (gameweeks_after_update current_time unflagged_gameweeks) = [] \<and>
   filter is_next (gameweeks_after_update current_time unflagged_gameweeks) = []"
  by (simp add: update_gameweek_status_raises gameweeks_after_update_unchanged
      unflagged_gameweeks_def)

section \<open>The transfer gate\<close>

text \<open>
  The query for an active gameweek compares no time. When it finds one the procedure
  returns false; otherwise the next statement compares \<open>current_time\<close> with
  \<open>deadline_time\<close>, and the procedure raises.
\<close>

lemma transfers_allowed_result:
  "transfers_allowed current_time gws =
     (if exists_active gws then Inr False
      else Inl (Operator_does_not_exist Timetz Timestamptz))"
  by (simp add: transfers_allowed_def Let_def exists_deadline_passed_def
      analyse_time_comparison_fails)

text \<open>
  Claim C1 fails on the code: with no gameweek at all, and with one upcoming gameweek
  whose deadline is still ahead, where the claim says true, the procedure raises and
  returns nothing.
\<close>

theorem transfers_allowed_raises_without_active_gameweek:
  "transfers_allowed current_time [] = Inl (Operator_does_not_exist Timetz Timestamptz) \<and>
   transfers_allowed 0
     [\<lparr>gameweek_number = 1, deadline_time = Some 10, start_time = Some 20, end_time = Some 30,
       status = ''upcoming'', is_current = True, is_next = False, is_finished = False\<rparr>] =
     Inl (Operator_does_not_exist Timetz Timestamptz)"
  by (simp add: transfers_allowed_result exists_active_def)

section \<open>The points calculator\<close>

subsection \<open>The loop over the roster\<close>

lemma limit1_None: "limit1 xs = None \<longleftrightarrow> xs = []"
  by (cases xs) (simp_all add: limit1_def)

lemma limit1_sort_key_Some:
  assumes "limit1 (sort_key f xs) = Some s"
  shows "s \<in> set xs \<and> (\<forall>x\<in>set xs. f s \<le> f x)"
proof -
  from assms obtain ys where ys: "sort_key f xs = s # ys"
    by (cases "sort_key f xs") (simp_all add: limit1_def)
  have "sorted (map f (sort_key f xs))" by (rule sorted_sort_key)
  then have "\<forall>x\<in>set ys. f s \<le> f x" unfolding ys by simp
  moreover have "set xs = set (s # ys)" unfolding ys [symmetric] by simp
  ultimately show ?thesis by auto
qed

lemma loop_body_contribution:
  "loop_body d t g row (tot, cap) =
     (if pr_is_starter row then
        (tot + row_contribution d t g row,
         if pr_is_captain row \<and>
            (minutes_played row \<noteq> 0 \<or> find_substitute d t g (pr_position row) \<noteq> None)
         then row_contribution d t g row else cap)
      else (tot, cap))"
  by (simp add: loop_body_def row_contribution_def split: option.splits)

lemma row_contribution_unassigned:
  "\<not> (minutes_played row \<noteq> 0 \<or> find_substitute d t g (pr_position row) \<noteq> None) \<Longrightarrow>
   row_contribution d t g row = 0"
  by (simp add: row_contribution_def)

lemma fold_loop_body_fst:
  "fst (fold (loop_body d t g) rows (tot, cap)) =
     tot + sum_list (map (row_contribution d t g) (filter pr_is_starter rows))"
  by (induction rows arbitrary: tot cap) (simp_all add: loop_body_contribution)

lemma fold_loop_body_snd_none:
  "filter (\<lambda>row. pr_is_starter row \<and> pr_is_captain row) rows = [] \<Longrightarrow>
   snd (fold (loop_body d t g) rows (tot, cap)) = cap"
proof (induction rows arbitrary: tot cap)
  case Nil
  then show ?case by simp
next
  case (Cons row rows)
  from Cons.prems have no: "\<not> (pr_is_starter row \<and> pr_is_captain row)"
    and rest: "filter (\<lambda>row. pr_is_starter row \<and> pr_is_captain row) rows = []"
    by (auto split: if_splits)
  from no have "loop_body d t g row (tot, cap) = (fst (loop_body d t g row (tot, cap)), cap)"
    by (auto simp: loop_body_contribution)
  then have "fold (loop_body d t g) (row # rows) (tot, cap) =
             fold (loop_body d t g) rows (fst (loop_body d t g row (tot, cap)), cap)"
    by simp
  then show ?case by (simp only: Cons.IH [OF rest])
qed

lemma fold_loop_body_snd:
  "length (filter (\<lambda>row. pr_is_starter row \<and> pr_is_captain row) rows) \<le> 1 \<Longrightarrow>
   snd (fold (loop_body d t g) rows (tot, 0)) =
     sum_list (map (row_contribution d t g)
                   (filter (\<lambda>row. pr_is_starter row \<and> pr_is_captain row) rows))"
proof (induction rows arbitrary: tot)
  case Nil
  then show ?case by simp
next
  case (Cons row rows)
  show ?case
  proof (cases "pr_is_starter row \<and> pr_is_captain row")
    case True
    with Cons.prems have none: "filter (\<lambda>row. pr_is_starter row \<and> pr_is_captain row) rows = []"
      by simp
    have "snd (loop_body d t g row (tot, 0)) = row_contribution d t g row"
      using True by (simp add: loop_body_contribution row_contribution_unassigned)
    then obtain tot' where "loop_body d t g row (tot, 0) = (tot', row_contribution d t g row)"
      by (metis prod.collapse)
    then show ?thesis
      using True none by (simp add: fold_loop_body_snd_none [OF none])
  next
    case False
    then have step: "loop_body d t g row (tot, 0) = (fst (loop_body d t g row (tot, 0)), 0)"
      by (auto simp: loop_body_contribution)
    from False Cons.prems
    have "length (filter (\<lambda>row. pr_is_starter row \<and> pr_is_captain row) rows) \<le> 1"
      by (auto split: if_splits)
    from Cons.IH [OF this, of "fst (loop_body d t g row (tot, 0))"]
    have "snd (fold (loop_body d t g) rows (loop_body d t g row (tot, 0))) =
          sum_list (map (row_contribution d t g)
                   (filter (\<lambda>row. pr_is_starter row \<and> pr_is_captain row) rows))"
      using step by simp
    then show ?thesis using False by auto
  qed
qed

lemma calculate_split:
  "calculate_fantasy_team_points d t g =
     fst (starters_loop d t g) +
     (if snd (starters_loop d t g) > 0 then snd (starters_loop d t g)
      else vice_captain_bonus d t g)"
  by (cases "starters_loop d t g")
     (simp add: calculate_fantasy_team_points_def vice_captain_bonus_def split: option.splits)

subsection \<open>Substitutes\<close>

lemma left_join_scores_mem:
  "gs \<in> set (left_join_scores gss g pid) \<Longrightarrow> gs = None \<or> (\<exists>x\<in>set gss. gs = Some x)"
proof (cases "filter (\<lambda>gs. gs_player_id gs = pid \<and> gs_gameweek gs = g) gss")
  case Nil
  assume "gs \<in> set (left_join_scores gss g pid)"
  then show ?thesis using Nil by (simp add: left_join_scores_def)
next
  case (Cons m ms)
  assume "gs \<in> set (left_join_scores gss g pid)"
  then have "gs \<in> Some ` set (filter (\<lambda>gs. gs_player_id gs = pid \<and> gs_gameweek gs = g) gss)"
    using Cons by (simp add: left_join_scores_def)
  then show ?thesis by auto
qed

lemma joined_minutes_nonneg:
  assumes "\<forall>gs\<in>set gss. 0 \<le> coalesce (gs_minutes_played gs) 0"
    and "gs \<in> set (left_join_scores gss g pid)"
  shows "0 \<le> coalesce (joined_minutes_played gs) 0"
  using left_join_scores_mem [OF assms(2)] assms(1)
  by (auto simp: joined_minutes_played_def coalesce_def)

lemma joined_points_recorded:
  assumes "\<forall>gs\<in>set gss. 0 < coalesce (gs_minutes_played gs) 0 \<longrightarrow> gs_total_points gs \<noteq> None"
    and "gs \<in> set (left_join_scores gss g pid)"
    and "coalesce (joined_minutes_played gs) 0 > 0"
  shows "joined_total_points gs = Some (coalesce (joined_total_points gs) 0)"
  using left_join_scores_mem [OF assms(2)] assms(1,3)
  by (auto simp: joined_minutes_played_def joined_total_points_def coalesce_def)

lemma roster_rows_minutes:
  assumes "\<forall>gs\<in>set (gameweek_scores d). 0 \<le> coalesce (gs_minutes_played gs) 0"
    and "row \<in> set (roster_rows d t g)"
  shows "0 \<le> minutes_played row"
  using assms(2) joined_minutes_nonneg [OF assms(1)]
  by (auto simp: roster_rows_def)

lemma roster_rows_starter:
  assumes "row \<in> set (roster_rows d t g)" and "pr_is_starter row"
  shows "\<exists>r\<in>set (rosters d). r_fantasy_team_id r = t \<and> is_starter r"
  using assms by (auto simp: roster_rows_def)

lemma concat_map_cong:
  "(\<And>x. x \<in> set xs \<Longrightarrow> f x = h x) \<Longrightarrow> concat (map f xs) = concat (map h xs)"
  by (simp cong: map_cong)

lemma candidates_points:
  assumes "\<forall>gs\<in>set (gameweek_scores d). 0 \<le> coalesce (gs_minutes_played gs) 0"
  shows "map sub_points (substitute_candidates d t g pos) = spec_eligible_substitute_points d t g pos"
proof -
  have pos: "\<And>pid gs. gs \<in> set (left_join_scores (gameweek_scores d) g pid) \<Longrightarrow>
      (coalesce (joined_minutes_played gs) 0 > 0) = (coalesce (joined_minutes_played gs) 0 \<noteq> 0)"
    using joined_minutes_nonneg [OF assms] by fastforce
  have inner: "\<And>pid. concat (map (\<lambda>gs. if 0 < coalesce (joined_minutes_played gs) 0
                                   then [coalesce (joined_total_points gs) 0] else [])
                             (left_join_scores (gameweek_scores d) g pid)) =
                    concat (map (\<lambda>gs. if coalesce (joined_minutes_played gs) 0 \<noteq> 0
                                   then [coalesce (joined_total_points gs) 0] else [])
                             (left_join_scores (gameweek_scores d) g pid))"
    by (rule concat_map_cong) (simp add: pos)
  show ?thesis
    unfolding substitute_candidates_def spec_eligible_substitute_points_def
    by (simp add: map_concat o_def if_distrib [of "map sub_points"] inner cong: if_cong)
qed

lemma candidates_order:
  assumes "\<forall>gs\<in>set (gameweek_scores d).
            0 < coalesce (gs_minutes_played gs) 0 \<longrightarrow> gs_total_points gs \<noteq> None"
    and "s \<in> set (substitute_candidates d t g pos)"
  shows "sub_order_points s = Some (sub_points s)"
  using assms(2) joined_points_recorded [OF assms(1)]
  by (auto simp: substitute_candidates_def)

lemma find_substitute_None:
  "find_substitute d t g pos = None \<longleftrightarrow> substitute_candidates d t g pos = []"
proof -
  have "sort_key (\<lambda>s. desc_nulls_last (sub_order_points s)) (substitute_candidates d t g pos) = []
        \<longleftrightarrow> substitute_candidates d t g pos = []"
    by (metis length_sort length_0_conv)
  then show ?thesis by (simp add: find_substitute_def limit1_None)
qed

lemma find_substitute_Max:
  assumes rec: "\<forall>gs\<in>set (gameweek_scores d).
            0 < coalesce (gs_minutes_played gs) 0 \<longrightarrow> gs_total_points gs \<noteq> None"
    and found: "find_substitute d t g pos = Some s"
  shows "sub_points s = Max (set (map sub_points (substitute_candidates d t g pos)))"
proof -
  let ?cs = "substitute_candidates d t g pos"
  from found have mem: "s \<in> set ?cs"
    and least: "\<forall>x\<in>set ?cs. desc_nulls_last (sub_order_points s) \<le> desc_nulls_last (sub_order_points x)"
    using limit1_sort_key_Some [of "\<lambda>s. desc_nulls_last (sub_order_points s)" ?cs s]
    by (simp_all add: find_substitute_def)
  have ge: "\<forall>x\<in>set ?cs. sub_points x \<le> sub_points s"
  proof
    fix x assume x: "x \<in> set ?cs"
    with least have "desc_nulls_last (sub_order_points s) \<le> desc_nulls_last (sub_order_points x)"
      by blast
    then show "sub_points x \<le> sub_points s"
      by (simp add: candidates_order [OF rec mem] candidates_order [OF rec x] desc_nulls_last_def)
  qed
  show ?thesis
  proof (rule Max_eqI [symmetric])
    show "finite (set (map sub_points ?cs))" by simp
    show "sub_points s \<in> set (map sub_points ?cs)" using mem by simp
    fix y assume "y \<in> set (map sub_points ?cs)"
    then show "y \<le> sub_points s" using ge by auto
  qed
qed

lemma row_contribution_eq:
  assumes mins: "\<forall>gs\<in>set (gameweek_scores d). 0 \<le> coalesce (gs_minutes_played gs) 0"
    and rec: "\<forall>gs\<in>set (gameweek_scores d).
            0 < coalesce (gs_minutes_played gs) 0 \<longrightarrow> gs_total_points gs \<noteq> None"
    and row: "row \<in> set (roster_rows d t g)"
  shows "row_contribution d t g row = spec_starter_contribution d t g row"
proof (cases "minutes_played row = 0")
  case False
  moreover have "0 \<le> minutes_played row" using mins row by (rule roster_rows_minutes)
  ultimately show ?thesis by (simp add: row_contribution_def spec_starter_contribution_def)
next
  case True
  note pts = candidates_points [OF mins, of t g "pr_position row", symmetric]
  show ?thesis
  proof (cases "find_substitute d t g (pr_position row)")
    case None
    then have "substitute_candidates d t g (pr_position row) = []"
      by (simp add: find_substitute_None)
    then show ?thesis
      using True None by (simp add: row_contribution_def spec_starter_contribution_def pts)
  next
    case (Some s)
    then have ne: "substitute_candidates d t g (pr_position row) \<noteq> []"
      using find_substitute_None [of d t g "pr_position row"] by simp
    have mx: "sub_points s = Max (set (map sub_points (substitute_candidates d t g (pr_position row))))"
      using rec Some by (rule find_substitute_Max)
    have cs: "(case map sub_points (substitute_candidates d t g (pr_position row)) of
                 [] \<Rightarrow> 0 | ps \<Rightarrow> Max (set ps)) =
              Max (set (map sub_points (substitute_candidates d t g (pr_position row))))"
      using ne by (cases "substitute_candidates d t g (pr_position row)") simp_all
    have "row_contribution d t g row = sub_points s"
      using True Some by (simp add: row_contribution_def)
    moreover have "spec_starter_contribution d t g row =
        Max (set (map sub_points (substitute_candidates d t g (pr_position row))))"
      using True unfolding spec_starter_contribution_def pts cs by simp
    ultimately show ?thesis using mx by simp
  qed
qed

subsection \<open>Captain bonus and base total\<close>

text \<open>
  Claim C3, as amended. For a team with at most one starting captain, the loop leaves in
  \<open>captain_points\<close> the captain's contribution after substitution (zero when no
  captain starts, or when the captain played no minute and has no substitute). When it
  is positive it is added once more to the base total. Otherwise, zero or negative, the
  result is the base total plus the vice-captain's recorded score when that score is
  positive: the fallback is taken exactly when the captain's contribution is not
  positive, and never when it is positive, however low. On the worked example of the
  specification the result is 17.
\<close>

theorem calculate_fantasy_team_points_captain_bonus:
  assumes "length (filter (\<lambda>row. pr_is_starter row \<and> pr_is_captain row) (roster_rows d t g)) \<le> 1"
  shows "snd (starters_loop d t g) =
           sum_list (map (row_contribution d t g)
             (filter (\<lambda>row. pr_is_starter row \<and> pr_is_captain row) (roster_rows d t g))) \<and>
    (0 < snd (starters_loop d t g) \<longrightarrow>
       calculate_fantasy_team_points d t g =
         fst (starters_loop d t g) + snd (starters_loop d t g)) \<and>
    (snd (starters_loop d t g) \<le> 0 \<longrightarrow>
       calculate_fantasy_team_points d t g =
         fst (starters_loop d t g) + vice_captain_bonus d t g) \<and>
    calculate_fantasy_team_points example_db 1 1 = 17"
proof (intro conjI)
  show "snd (starters_loop d t g) =
           sum_list (map (row_contribution d t g)
             (filter (\<lambda>row. pr_is_starter row \<and> pr_is_captain row) (roster_rows d t g)))"
    unfolding starters_loop_def using assms by (rule fold_loop_body_snd)
  show "0 < snd (starters_loop d t g) \<longrightarrow>
       calculate_fantasy_team_points d t g =
         fst (starters_loop d t g) + snd (starters_loop d t g)"
    by (simp add: calculate_split)
  show "snd (starters_loop d t g) \<le> 0 \<longrightarrow>
       calculate_fantasy_team_points d t g =
         fst (starters_loop d t g) + vice_captain_bonus d t g"
    by (simp add: calculate_split)
  show "calculate_fantasy_team_points example_db 1 1 = 17"
    by code_simp
qed

theorem calculate_fantasy_team_points_captain_bonus_witness:
  "length (filter (\<lambda>row. pr_is_starter row \<and> pr_is_captain row)
      (roster_rows example_db 1 1)) \<le> 1 \<and>
   snd (starters_loop example_db 1 1) = 5 \<and>
   calculate_fantasy_team_points example_db 1 1 = fst (starters_loop example_db 1 1) + 5"
proof -
  have h: "length (filter (\<lambda>row. pr_is_starter row \<and> pr_is_captain row)
      (roster_rows example_db 1 1)) \<le> 1"
    by code_simp
  have s: "snd (starters_loop example_db 1 1) = 5"
    by code_simp
  show ?thesis
    using h s calculate_fantasy_team_points_captain_bonus [OF h] by simp
qed

text \<open>
  Claim C3 fails as stated: a captain who played and scored -1 contributes -1, which is
  not zero, and the vice-captain's 3 points are added all the same: base total 2,
  result 5.
\<close>

theorem vice_captain_fallback_on_negative_captain:
  "starters_loop negative_captain_db 1 1 = (2, - 1) \<and>
   vice_captain_bonus negative_captain_db 1 1 = 3 \<and>
   calculate_fantasy_team_points negative_captain_db 1 1 = 5"
  by code_simp

text \<open>
  Claim C4, as amended. With score rows that record non-negative minutes and, where the
  minutes are positive, a point total, the base total is the sum, over the starting rows of the roster query, of the
  starter's points when the starter played more than zero minutes, of the highest
  points among the bench players of the same position with nonzero minutes otherwise,
  and of zero when there is none. The result of the procedure is the base total plus
  the captain bonus or the vice-captain fallback. A team without starters has base
  total 0, and its result is the vice-captain fallback: 0 unless its vice-captain has
  a positive recorded score.
\<close>

theorem calculate_fantasy_team_points_base:
  assumes mins: "\<forall>gs\<in>set (gameweek_scores d). 0 \<le> coalesce (gs_minutes_played gs) 0"
    and rec: "\<forall>gs\<in>set (gameweek_scores d).
            0 < coalesce (gs_minutes_played gs) 0 \<longrightarrow> gs_total_points gs \<noteq> None"
  shows "fst (starters_loop d t g) =
           sum_list (map (spec_starter_contribution d t g)
                         (filter pr_is_starter (roster_rows d t g))) \<and>
    calculate_fantasy_team_points d t g =
      fst (starters_loop d t g) +
      (if snd (starters_loop d t g) > 0 then snd (starters_loop d t g)
       else vice_captain_bonus d t g) \<and>
    ((\<forall>r\<in>set (rosters d). r_fantasy_team_id r = t \<longrightarrow> \<not> is_starter r) \<longrightarrow>
       fst (starters_loop d t g) = 0 \<and>
       calculate_fantasy_team_points d t g = vice_captain_bonus d t g)"
proof (intro conjI impI)
  have eq: "map (row_contribution d t g) (filter pr_is_starter (roster_rows d t g)) =
        map (spec_starter_contribution d t g) (filter pr_is_starter (roster_rows d t g))"
    by (rule map_cong [OF refl]) (simp add: row_contribution_eq [OF mins rec])
  have "fst (starters_loop d t g) =
          sum_list (map (row_contribution d t g) (filter pr_is_starter (roster_rows d t g)))"
    by (simp add: starters_loop_def fold_loop_body_fst)
  then show "fst (starters_loop d t g) =
           sum_list (map (spec_starter_contribution d t g)
                         (filter pr_is_starter (roster_rows d t g)))"
    by (simp only: eq)
  show "calculate_fantasy_team_points d t g =
      fst (starters_loop d t g) +
      (if snd (starters_loop d t g) > 0 then snd (starters_loop d t g)
       else vice_captain_bonus d t g)"
    by (rule calculate_split)
  assume none: "\<forall>r\<in>set (rosters d). r_fantasy_team_id r = t \<longrightarrow> \<not> is_starter r"
  then have nos: "filter pr_is_starter (roster_rows d t g) = []"
    using roster_rows_starter [of _ d t g] by (auto simp: filter_empty_conv)
  then have ncs: "filter (\<lambda>row. pr_is_starter row \<and> pr_is_captain row) (roster_rows d t g) = []"
    by (auto simp: filter_empty_conv)
  have f: "fst (starters_loop d t g) = 0"
    by (simp add: starters_loop_def fold_loop_body_fst nos)
  have s: "snd (starters_loop d t g) = 0"
    unfolding starters_loop_def using ncs by (rule fold_loop_body_snd_none)
  show "fst (starters_loop d t g) = 0" by (rule f)
  show "calculate_fantasy_team_points d t g = vice_captain_bonus d t g"
    by (simp add: calculate_split f s)
qed

text \<open>
  Claim C4 fails as stated: a team whose only player is a vice-captain on the bench, with
  5 recorded points, has no starter and gets 5 points.
\<close>

theorem zero_starters_nonzero_points:
  "filter is_starter (rosters bench_only_db) = [] \<and>
   calculate_fantasy_team_points bench_only_db 1 1 = 5"
  by code_simp

theorem calculate_fantasy_team_points_base_witness:
  "list_all (\<lambda>gs. 0 \<le> coalesce (gs_minutes_played gs) 0) (gameweek_scores example_db) \<and>
   list_all (\<lambda>gs. gs_total_points gs \<noteq> None) (gameweek_scores example_db) \<and>
   fst (starters_loop example_db 1 1) =
     sum_list (map (spec_starter_contribution example_db 1 1)
                   (filter pr_is_starter (roster_rows example_db 1 1))) \<and>
   fst (starters_loop example_db 1 1) = 12 \<and>
   list_all (\<lambda>r. \<not> is_starter r) (rosters bench_only_db) \<and>
   fst (starters_loop bench_only_db 1 1) = 0 \<and>
   calculate_fantasy_team_points bench_only_db 1 1 = vice_captain_bonus bench_only_db 1 1"
proof -
  have sc: "gameweek_scores bench_only_db = gameweek_scores example_db"
    by (simp add: bench_only_db_def)
  have m: "\<forall>gs\<in>set (gameweek_scores example_db). 0 \<le> coalesce (gs_minutes_played gs) 0"
    by (simp add: example_db_def coalesce_def)
  have r: "\<forall>gs\<in>set (gameweek_scores example_db).
             0 < coalesce (gs_minutes_played gs) 0 \<longrightarrow> gs_total_points gs \<noteq> None"
    by (simp add: example_db_def)
  have n: "\<forall>r\<in>set (rosters bench_only_db). r_fantasy_team_id r = 1 \<longrightarrow> \<not> is_starter r"
    by (simp add: bench_only_db_def)
  have t: "fst (starters_loop example_db 1 1) = 12"
    by code_simp
  have la: "list_all (\<lambda>gs. 0 \<le> coalesce (gs_minutes_played gs) 0) (gameweek_scores example_db)"
    using m by (simp add: list_all_iff)
  have lr: "list_all (\<lambda>gs. gs_total_points gs \<noteq> None) (gameweek_scores example_db)"
    by (simp add: example_db_def)
  have lb: "list_all (\<lambda>r. \<not> is_starter r) (rosters bench_only_db)"
    by (simp add: bench_only_db_def)
  show ?thesis
    using la lr lb t n
      calculate_fantasy_team_points_base [OF m r, of 1 1]
      calculate_fantasy_team_points_base [OF m [folded sc] r [folded sc], of 1 1]
    by blast
qed

section \<open>The finalizer\<close>

subsection \<open>What the loops leave alone\<close>

lemma team_loop_body_frame:
  "gameweeks (team_loop_body g t d) = gameweeks d"
  "real_matches (team_loop_body g t d) = real_matches d"
  "rosters (team_loop_body g t d) = rosters d"
  "players (team_loop_body g t d) = players d"
  "gameweek_scores (team_loop_body g t d) = gameweek_scores d"
  by (simp_all add: team_loop_body_def Let_def)

lemma fold_team_loop_body_frame:
  "gameweeks (fold (team_loop_body g) ts d) = gameweeks d \<and>
   real_matches (fold (team_loop_body g) ts d) = real_matches d \<and>
   rosters (fold (team_loop_body g) ts d) = rosters d \<and>
   players (fold (team_loop_body g) ts d) = players d \<and>
   gameweek_scores (fold (team_loop_body g) ts d) = gameweek_scores d"
  by (induction ts arbitrary: d) (simp_all add: team_loop_body_frame)

lemma league_loop_body_frame:
  "gameweeks (league_loop_body g l d) = gameweeks d"
  "real_matches (league_loop_body g l d) = real_matches d"
  "rosters (league_loop_body g l d) = rosters d"
  "players (league_loop_body g l d) = players d"
  "gameweek_scores (league_loop_body g l d) = gameweek_scores d"
  "fantasy_teams (league_loop_body g l d) = fantasy_teams d"
  by (simp_all add: league_loop_body_def)

lemma fold_league_loop_body_frame:
  "gameweeks (fold (league_loop_body g) ls d) = gameweeks d \<and>
   real_matches (fold (league_loop_body g) ls d) = real_matches d \<and>
   rosters (fold (league_loop_body g) ls d) = rosters d \<and>
   players (fold (league_loop_body g) ls d) = players d \<and>
   gameweek_scores (fold (league_loop_body g) ls d) = gameweek_scores d \<and>
   fantasy_teams (fold (league_loop_body g) ls d) = fantasy_teams d"
  by (induction ls arbitrary: d) (simp_all add: league_loop_body_frame)

lemma settled_frame:
  "gameweeks (overall_ranking (league_loop g (team_loop g d))) = gameweeks d"
  "real_matches (overall_ranking (league_loop g (team_loop g d))) = real_matches d"
  "rosters (overall_ranking (league_loop g (team_loop g d))) = rosters d"
  "players (overall_ranking (league_loop g (team_loop g d))) = players d"
  "gameweek_scores (overall_ranking (league_loop g (team_loop g d))) = gameweek_scores d"
  by (simp_all add: overall_ranking_def league_loop_def team_loop_def
        fold_league_loop_body_frame fold_team_loop_body_frame)

lemma finalize_gameweeks:
  assumes "finalize_gameweek d g = Inr d'"
  shows "gameweeks d' =
         map (\<lambda>gw. mark_next g (mark_current g (mark_finalized g gw))) (gameweeks d)"
  using assms
  by (auto simp: finalize_gameweek_def advance_gameweeks_def settled_frame o_def
           split: if_splits)

lemma finalize_frame:
  assumes "finalize_gameweek d g = Inr d'"
  shows "real_matches d' = real_matches d" "rosters d' = rosters d"
        "players d' = players d" "gameweek_scores d' = gameweek_scores d"
  using assms
  by (auto simp: finalize_gameweek_def advance_gameweeks_def settled_frame split: if_splits)

lemma finalize_succeeds:
  "\<not> exists_incomplete_match d g \<Longrightarrow> \<exists>d'. finalize_gameweek d g = Inr d'"
  by (simp add: finalize_gameweek_def)

lemma marks_number:
  "gameweek_number (mark_next g (mark_current g (mark_finalized g gw))) = gameweek_number gw"
  by (simp add: mark_next_def mark_current_def mark_finalized_def)

subsection \<open>Precondition and gameweek pointers\<close>

text \<open>
  Claim C2. When a match of the target gameweek has a status other than completed, the
  procedure fails with the error naming the gameweek, and the database after the call
  is the database before it: no table has changed.
\<close>

theorem finalize_gameweek_rejects_incomplete:
  assumes "\<exists>m\<in>set (real_matches d). rm_gameweek m = g \<and> rm_status m \<noteq> ''completed''"
  shows "finalize_gameweek d g = Inl (Not_all_matches_completed g) \<and>
         db_after_finalize d g = d"
proof -
  from assms have "exists_incomplete_match d g"
    by (simp add: exists_incomplete_match_def list_ex_iff)
  then show ?thesis by (simp add: finalize_gameweek_def db_after_finalize_def)
qed

theorem finalize_gameweek_rejects_incomplete_witness:
  "(\<exists>m\<in>set (real_matches example_db). rm_gameweek m = 2 \<and> rm_status m \<noteq> ''completed'') \<and>
   finalize_gameweek example_db 2 = Inl (Not_all_matches_completed 2) \<and>
   db_after_finalize example_db 2 = example_db"
proof -
  have h: "\<exists>m\<in>set (real_matches example_db). rm_gameweek m = 2 \<and> rm_status m \<noteq> ''completed''"
    by (simp add: example_db_def)
  show ?thesis using h finalize_gameweek_rejects_incomplete [OF h] by simp
qed

text \<open>
  Claim C8. After a successful finalization of gameweek \<open>g\<close> the gameweeks are the same
  rows with the same ordinals, every gameweek \<open>g\<close> is finalized and not current, every
  gameweek \<open>g + 1\<close> is current and active, and every gameweek \<open>g + 2\<close> is next.
\<close>

theorem finalize_gameweek_advances:
  assumes "finalize_gameweek d g = Inr d'"
  shows "map gameweek_number (gameweeks d') = map gameweek_number (gameweeks d) \<and>
    (\<forall>gw\<in>set (gameweeks d').
       (gameweek_number gw = g \<longrightarrow> status gw = ''finalized'' \<and> \<not> is_current gw) \<and>
       (gameweek_number gw = g + 1 \<longrightarrow> is_current gw \<and> status gw = ''active'') \<and>
       (gameweek_number gw = g + 2 \<longrightarrow> is_next gw))"
proof -
  have gws: "gameweeks d' =
      map (\<lambda>gw. mark_next g (mark_current g (mark_finalized g gw))) (gameweeks d)"
    using assms by (rule finalize_gameweeks)
  have "map gameweek_number (gameweeks d') = map gameweek_number (gameweeks d)"
    by (simp add: gws o_def marks_number)
  moreover have "\<forall>gw\<in>set (gameweeks d').
       (gameweek_number gw = g \<longrightarrow> status gw = ''finalized'' \<and> \<not> is_current gw) \<and>
       (gameweek_number gw = g + 1 \<longrightarrow> is_current gw \<and> status gw = ''active'') \<and>
       (gameweek_number gw = g + 2 \<longrightarrow> is_next gw)"
  proof
    fix gw assume "gw \<in> set (gameweeks d')"
    then obtain gw0 where gw: "gw = mark_next g (mark_current g (mark_finalized g gw0))"
      unfolding gws by auto
    show "(gameweek_number gw = g \<longrightarrow> status gw = ''finalized'' \<and> \<not> is_current gw) \<and>
       (gameweek_number gw = g + 1 \<longrightarrow> is_current gw \<and> status gw = ''active'') \<and>
       (gameweek_number gw = g + 2 \<longrightarrow> is_next gw)"
      unfolding gw by (simp add: mark_next_def mark_current_def mark_finalized_def)
  qed
  ultimately show ?thesis by simp
qed

theorem finalize_gameweek_advances_witness:
  "finalize_gameweek example_db 1 = Inr (db_after_finalize example_db 1) \<and>
   map gameweek_number (gameweeks (db_after_finalize example_db 1)) = [1, 2, 3] \<and>
   status (gameweeks (db_after_finalize example_db 1) ! 0) = ''finalized'' \<and>
   \<not> is_current (gameweeks (db_after_finalize example_db 1) ! 0) \<and>
   status (gameweeks (db_after_finalize example_db 1) ! 1) = ''active'' \<and>
   is_current (gameweeks (db_after_finalize example_db 1) ! 1) \<and>
   is_next (gameweeks (db_after_finalize example_db 1) ! 2)"
proof -
  let ?gws = "gameweeks (db_after_finalize example_db 1)"
  have ok: "\<not> exists_incomplete_match example_db 1"
    by (simp add: exists_incomplete_match_def example_db_def)
  then have h: "finalize_gameweek example_db 1 = Inr (db_after_finalize example_db 1)"
    by (simp add: db_after_finalize_def finalize_gameweek_def)
  note adv = finalize_gameweek_advances [OF h]
  have g0: "gameweeks example_db = example_gameweeks" by (simp add: example_db_def)
  have n: "map gameweek_number ?gws = [1, 2, 3]"
    using adv unfolding g0 by (simp add: example_gameweeks_def)
  have len: "length ?gws = 3"
  proof -
    have "length (map gameweek_number ?gws) = length [1, 2, 3 :: int]" by (simp only: n)
    then show ?thesis by simp
  qed
  have e0: "gameweek_number (?gws ! 0) = 1"
   and e1: "gameweek_number (?gws ! 1) = 1 + 1"
   and e2: "gameweek_number (?gws ! 2) = 1 + 2"
    using len arg_cong [OF n, of "\<lambda>xs. xs ! 0"] arg_cong [OF n, of "\<lambda>xs. xs ! 1"]
      arg_cong [OF n, of "\<lambda>xs. xs ! 2"] by simp_all
  have m0: "?gws ! 0 \<in> set ?gws" and m1: "?gws ! 1 \<in> set ?gws" and m2: "?gws ! 2 \<in> set ?gws"
    using len by simp_all
  from adv m0 e0 have a0: "status (?gws ! 0) = ''finalized'' \<and> \<not> is_current (?gws ! 0)"
    by blast
  from adv m1 e1 have a1: "is_current (?gws ! 1) \<and> status (?gws ! 1) = ''active''"
    by blast
  from adv m2 e2 have a2: "is_next (?gws ! 2)"
    by blast
  show ?thesis using h n a0 a1 a2 by simp
qed

text \<open>
  Claim C10. Whenever no match of gameweek \<open>g\<close> is incomplete, the finalization
  succeeds, and every row that was gameweek \<open>g + 1\<close> before the call is active and
  current after it, whatever its status was: a finalized successor becomes active again.
\<close>

theorem finalize_gameweek_promotes_unconditionally:
  assumes "\<not> exists_incomplete_match d g"
  shows "\<exists>d'. finalize_gameweek d g = Inr d' \<and>
    length (gameweeks d') = length (gameweeks d) \<and>
    (\<forall>i<length (gameweeks d). gameweek_number (gameweeks d ! i) = g + 1 \<longrightarrow>
       gameweek_number (gameweeks d' ! i) = g + 1 \<and>
       status (gameweeks d' ! i) = ''active'' \<and> is_current (gameweeks d' ! i))"
proof -
  from assms obtain d' where d': "finalize_gameweek d g = Inr d'"
    using finalize_succeeds by blast
  have gws: "gameweeks d' =
      map (\<lambda>gw. mark_next g (mark_current g (mark_finalized g gw))) (gameweeks d)"
    using d' by (rule finalize_gameweeks)
  have "length (gameweeks d') = length (gameweeks d)" by (simp add: gws)
  moreover have "\<forall>i<length (gameweeks d). gameweek_number (gameweeks d ! i) = g + 1 \<longrightarrow>
       gameweek_number (gameweeks d' ! i) = g + 1 \<and>
       status (gameweeks d' ! i) = ''active'' \<and> is_current (gameweeks d' ! i)"
    by (simp add: gws mark_next_def mark_current_def mark_finalized_def)
  ultimately show ?thesis using d' by blast
qed

theorem finalize_gameweek_promotes_unconditionally_witness:
  "\<not> exists_incomplete_match finalized_successor_db 1 \<and>
   status (gameweeks finalized_successor_db ! 1) = ''finalized'' \<and>
   (\<exists>d'. finalize_gameweek finalized_successor_db 1 = Inr d' \<and>
         status (gameweeks d' ! 1) = ''active'' \<and> is_current (gameweeks d' ! 1))"
proof -
  have ok: "\<not> exists_incomplete_match finalized_successor_db 1"
    by (simp add: exists_incomplete_match_def finalized_successor_db_def example_db_def)
  have st: "status (gameweeks finalized_successor_db ! 1) = ''finalized''"
    by (simp add: finalized_successor_db_def)
  from finalize_gameweek_promotes_unconditionally [OF ok]
  obtain d' where d': "finalize_gameweek finalized_successor_db 1 = Inr d'"
    and r: "\<forall>i<length (gameweeks finalized_successor_db).
       gameweek_number (gameweeks finalized_successor_db ! i) = 1 + 1 \<longrightarrow>
       gameweek_number (gameweeks d' ! i) = 1 + 1 \<and>
       status (gameweeks d' ! i) = ''active'' \<and> is_current (gameweeks d' ! i)"
    by blast
  have "(1::nat) < length (gameweeks finalized_successor_db)"
    and "gameweek_number (gameweeks finalized_successor_db ! 1) = 1 + 1"
    by (simp_all add: finalized_successor_db_def)
  with r have "status (gameweeks d' ! 1) = ''active'' \<and> is_current (gameweeks d' ! 1)"
    by blast
  then show ?thesis using ok st d' by blast
qed

subsection \<open>Team totals\<close>

lemma calculate_cong:
  assumes "rosters d1 = rosters d2" "players d1 = players d2"
    "gameweek_scores d1 = gameweek_scores d2"
  shows "calculate_fantasy_team_points d1 t g = calculate_fantasy_team_points d2 t g"
proof -
  have sub: "\<And>pos. find_substitute d1 t g pos = find_substitute d2 t g pos"
    unfolding find_substitute_def substitute_candidates_def assms by (rule refl)
  have body: "loop_body d1 t g = loop_body d2 t g"
    unfolding loop_body_def sub by (rule refl)
  have rows: "roster_rows d1 t g = roster_rows d2 t g"
    unfolding roster_rows_def assms by (rule refl)
  have loop: "starters_loop d1 t g = starters_loop d2 t g"
    unfolding starters_loop_def body rows by (rule refl)
  have vc: "select_vice_captain_id d1 t = select_vice_captain_id d2 t"
    unfolding select_vice_captain_id_def assms by (rule refl)
  have vp: "\<And>v. select_vice_captain_points d1 g v = select_vice_captain_points d2 g v"
    unfolding select_vice_captain_points_def assms by (rule refl)
  show ?thesis
    unfolding calculate_fantasy_team_points_def loop vc vp by (rule refl)
qed

lemma fold_team_loop_body_teams:
  assumes "rosters d0 = rosters d" "players d0 = players d"
    "gameweek_scores d0 = gameweek_scores d"
  shows "fantasy_teams (fold (team_loop_body g) ts d0) =
     map (fold (\<lambda>t ft. if fantasy_team_id ft = t
                         then settle_team (calculate_fantasy_team_points d t g) g ft else ft) ts)
         (fantasy_teams d0)"
  using assms
proof (induction ts arbitrary: d0)
  case Nil
  then show ?case by simp
next
  case (Cons t ts)
  have c: "calculate_fantasy_team_points d0 t g = calculate_fantasy_team_points d t g"
    using Cons.prems by (rule calculate_cong)
  have step: "fantasy_teams (team_loop_body g t d0) =
      map (\<lambda>ft. if fantasy_team_id ft = t
                 then settle_team (calculate_fantasy_team_points d t g) g ft else ft)
          (fantasy_teams d0)"
    by (simp add: team_loop_body_def Let_def c)
  have "fantasy_teams (fold (team_loop_body g) ts (team_loop_body g t d0)) =
     map (fold (\<lambda>t ft. if fantasy_team_id ft = t
                         then settle_team (calculate_fantasy_team_points d t g) g ft else ft) ts)
         (fantasy_teams (team_loop_body g t d0))"
    by (rule Cons.IH) (simp_all add: team_loop_body_frame Cons.prems)
  then show ?case by (simp add: step o_def)
qed

lemma settle_team_fields:
  "fantasy_team_id (settle_team p g ft) = fantasy_team_id ft"
  "total_points (settle_team p g ft) =
     Some (coalesce (total_points ft) 0 + p - coalesce (gameweek_points ft) 0)"
  "gameweek_points (settle_team p g ft) = Some p"
  by (simp_all add: settle_team_def)

lemma fold_settle_row:
  fixes p :: "uuid \<Rightarrow> int" and g :: int
  defines "u \<equiv> \<lambda>t ft. if fantasy_team_id ft = t then settle_team (p t) g ft else ft"
  shows "fantasy_team_id (fold u ts ft) = fantasy_team_id ft \<and>
    (if fantasy_team_id ft \<in> set ts
     then total_points (fold u ts ft) =
            Some (coalesce (total_points ft) 0 + p (fantasy_team_id ft)
                  - coalesce (gameweek_points ft) 0) \<and>
          gameweek_points (fold u ts ft) = Some (p (fantasy_team_id ft))
     else fold u ts ft = ft)"
proof (induction ts rule: rev_induct)
  case Nil
  then show ?case by simp
next
  case (snoc t ts)
  let ?x = "fold u ts ft"
  have app: "fold u (ts @ [t]) ft = u t ?x" by simp
  from snoc have idx: "fantasy_team_id ?x = fantasy_team_id ft" by simp
  show ?case
  proof (cases "fantasy_team_id ft = t")
    case False
    then have "u t ?x = ?x" using idx by (simp add: u_def)
    then show ?thesis using snoc False unfolding app by auto
  next
    case True
    then have ux: "u t ?x = settle_team (p t) g ?x" using idx by (simp add: u_def)
    show ?thesis
    proof (cases "fantasy_team_id ft \<in> set ts")
      case True
      with snoc have "total_points ?x =
            Some (coalesce (total_points ft) 0 + p (fantasy_team_id ft)
                  - coalesce (gameweek_points ft) 0)"
        and "gameweek_points ?x = Some (p (fantasy_team_id ft))"
        by simp_all
      then show ?thesis
        using \<open>fantasy_team_id ft = t\<close> idx unfolding app ux
        by (simp add: settle_team_fields coalesce_def)
    next
      case False
      with snoc have "?x = ft" by simp
      then show ?thesis
        using \<open>fantasy_team_id ft = t\<close> unfolding app ux
        by (simp add: settle_team_fields)
    qed
  qed
qed

lemma rank_loop_fields:
  "map fantasy_team_id (rank_loop ts rc fts) = map fantasy_team_id fts \<and>
   map total_points (rank_loop ts rc fts) = map total_points fts \<and>
   map gameweek_points (rank_loop ts rc fts) = map gameweek_points fts"
proof (induction ts arbitrary: rc fts)
  case Nil
  then show ?case by simp
next
  case (Cons t ts)
  let ?fts = "map (\<lambda>ft. if fantasy_team_id ft = t then ft\<lparr>rank := Some rc\<rparr> else ft) fts"
  have "map fantasy_team_id ?fts = map fantasy_team_id fts"
       "map total_points ?fts = map total_points fts"
       "map gameweek_points ?fts = map gameweek_points fts"
    by (simp_all add: o_def if_distrib cong: if_cong)
  then show ?case using Cons.IH [of "rc + 1" ?fts] by simp
qed

lemma team_loop_teams:
  "fantasy_teams (team_loop g d) =
     map (fold (\<lambda>t ft. if fantasy_team_id ft = t
                         then settle_team (calculate_fantasy_team_points d t g) g ft else ft)
               (sort (map fantasy_team_id (fantasy_teams d))))
         (fantasy_teams d)"
  unfolding team_loop_def by (rule fold_team_loop_body_teams) simp_all

lemma team_loop_fields:
  "map fantasy_team_id (fantasy_teams (team_loop g d)) = map fantasy_team_id (fantasy_teams d) \<and>
   map total_points (fantasy_teams (team_loop g d)) =
     map (\<lambda>ft. Some (coalesce (total_points ft) 0
                      + calculate_fantasy_team_points d (fantasy_team_id ft) g
                      - coalesce (gameweek_points ft) 0)) (fantasy_teams d) \<and>
   map gameweek_points (fantasy_teams (team_loop g d)) =
     map (\<lambda>ft. Some (calculate_fantasy_team_points d (fantasy_team_id ft) g)) (fantasy_teams d)"
proof -
  let ?ts = "sort (map fantasy_team_id (fantasy_teams d))"
  let ?u = "\<lambda>t ft. if fantasy_team_id ft = t
                    then settle_team (calculate_fantasy_team_points d t g) g ft else ft"
  have row: "\<And>ft. ft \<in> set (fantasy_teams d) \<Longrightarrow>
      fantasy_team_id (fold ?u ?ts ft) = fantasy_team_id ft \<and>
      total_points (fold ?u ?ts ft) =
        Some (coalesce (total_points ft) 0
              + calculate_fantasy_team_points d (fantasy_team_id ft) g
              - coalesce (gameweek_points ft) 0) \<and>
      gameweek_points (fold ?u ?ts ft) =
        Some (calculate_fantasy_team_points d (fantasy_team_id ft) g)"
  proof -
    fix ft assume "ft \<in> set (fantasy_teams d)"
    then have "fantasy_team_id ft \<in> set ?ts" by simp
    then show "fantasy_team_id (fold ?u ?ts ft) = fantasy_team_id ft \<and>
      total_points (fold ?u ?ts ft) =
        Some (coalesce (total_points ft) 0
              + calculate_fantasy_team_points d (fantasy_team_id ft) g
              - coalesce (gameweek_points ft) 0) \<and>
      gameweek_points (fold ?u ?ts ft) =
        Some (calculate_fantasy_team_points d (fantasy_team_id ft) g)"
      using fold_settle_row [of "\<lambda>t. calculate_fantasy_team_points d t g" g ?ts ft]
      by simp
  qed
  show ?thesis
    unfolding team_loop_teams map_map o_def
    by (intro conjI map_cong refl) (simp_all add: row)
qed

lemma finalize_teams:
  assumes "finalize_gameweek d g = Inr d'"
  shows "map fantasy_team_id (fantasy_teams d') = map fantasy_team_id (fantasy_teams d) \<and>
   map total_points (fantasy_teams d') =
     map (\<lambda>ft. Some (coalesce (total_points ft) 0
                      + calculate_fantasy_team_points d (fantasy_team_id ft) g
                      - coalesce (gameweek_points ft) 0)) (fantasy_teams d) \<and>
   map gameweek_points (fantasy_teams d') =
     map (\<lambda>ft. Some (calculate_fantasy_team_points d (fantasy_team_id ft) g)) (fantasy_teams d)"
proof -
  let ?d1 = "team_loop g d"
  have d': "d' = advance_gameweeks g (overall_ranking (league_loop g ?d1))"
    using assms by (simp add: finalize_gameweek_def split: if_splits)
  have l: "fantasy_teams (league_loop g ?d1) = fantasy_teams ?d1"
    by (simp add: league_loop_def fold_league_loop_body_frame)
  have "fantasy_teams d' =
        rank_loop (overall_order (league_loop g ?d1)) 1 (fantasy_teams ?d1)"
    by (simp add: d' advance_gameweeks_def overall_ranking_def l)
  then show ?thesis
    using rank_loop_fields [of "overall_order (league_loop g ?d1)" 1 "fantasy_teams ?d1"]
      team_loop_fields [of g d]
    by simp
qed

text \<open>
  Claim C9. After a successful finalization of gameweek \<open>g\<close> every fantasy team, row
  by row, has as total its old total plus the points computed for \<open>g\<close> minus its old
  gameweek points (NULL counting as zero), and as gameweek points the points computed
  for \<open>g\<close>. Finalizing \<open>g\<close> again then succeeds and leaves every total and every
  gameweek-points snapshot as the first run left it.
\<close>

theorem finalize_gameweek_totals:
  assumes "finalize_gameweek d g = Inr d'"
  shows "map fantasy_team_id (fantasy_teams d') = map fantasy_team_id (fantasy_teams d) \<and>
   map total_points (fantasy_teams d') =
     map (\<lambda>ft. Some (coalesce (total_points ft) 0
                      + calculate_fantasy_team_points d (fantasy_team_id ft) g
                      - coalesce (gameweek_points ft) 0)) (fantasy_teams d) \<and>
   map gameweek_points (fantasy_teams d') =
     map (\<lambda>ft. Some (calculate_fantasy_team_points d (fantasy_team_id ft) g)) (fantasy_teams d) \<and>
   (\<exists>d''. finalize_gameweek d' g = Inr d'' \<and>
      map total_points (fantasy_teams d'') = map total_points (fantasy_teams d') \<and>
      map gameweek_points (fantasy_teams d'') = map gameweek_points (fantasy_teams d'))"
proof -
  note first = finalize_teams [OF assms]
  have calc: "\<And>t. calculate_fantasy_team_points d' t g = calculate_fantasy_team_points d t g"
    by (rule calculate_cong) (simp_all add: finalize_frame [OF assms])
  have "\<not> exists_incomplete_match d g"
    using assms by (auto simp: finalize_gameweek_def split: if_splits)
  then have "\<not> exists_incomplete_match d' g"
    by (simp add: exists_incomplete_match_def finalize_frame [OF assms])
  then obtain d'' where d'': "finalize_gameweek d' g = Inr d''"
    using finalize_succeeds by blast
  note second = finalize_teams [OF d'']
  have row: "\<And>ft. ft \<in> set (fantasy_teams d') \<Longrightarrow>
      \<exists>ft0\<in>set (fantasy_teams d). fantasy_team_id ft = fantasy_team_id ft0 \<and>
        total_points ft = Some (coalesce (total_points ft0) 0
                      + calculate_fantasy_team_points d (fantasy_team_id ft0) g
                      - coalesce (gameweek_points ft0) 0) \<and>
        gameweek_points ft = Some (calculate_fantasy_team_points d (fantasy_team_id ft0) g)"
  proof -
    fix ft assume "ft \<in> set (fantasy_teams d')"
    then obtain i where i: "i < length (fantasy_teams d')" "ft = fantasy_teams d' ! i"
      by (metis in_set_conv_nth)
    have len: "length (fantasy_teams d') = length (fantasy_teams d)"
      using first by (metis length_map)
    have a: "fantasy_team_id ft = fantasy_team_id (fantasy_teams d ! i)"
      using first i len by (metis nth_map)
    have b: "total_points ft = Some (coalesce (total_points (fantasy_teams d ! i)) 0
          + calculate_fantasy_team_points d (fantasy_team_id (fantasy_teams d ! i)) g
          - coalesce (gameweek_points (fantasy_teams d ! i)) 0)"
    proof -
      have "map total_points (fantasy_teams d') ! i =
            map (\<lambda>ft. Some (coalesce (total_points ft) 0
                      + calculate_fantasy_team_points d (fantasy_team_id ft) g
                      - coalesce (gameweek_points ft) 0)) (fantasy_teams d) ! i"
        using first by simp
      then show ?thesis using i len by simp
    qed
    have c: "gameweek_points ft =
        Some (calculate_fantasy_team_points d (fantasy_team_id (fantasy_teams d ! i)) g)"
    proof -
      have "map gameweek_points (fantasy_teams d') ! i =
            map (\<lambda>ft. Some (calculate_fantasy_team_points d (fantasy_team_id ft) g))
                (fantasy_teams d) ! i"
        using first by simp
      then show ?thesis using i len by simp
    qed
    have "fantasy_teams d ! i \<in> set (fantasy_teams d)" using i len by simp
    then show "\<exists>ft0\<in>set (fantasy_teams d). fantasy_team_id ft = fantasy_team_id ft0 \<and>
        total_points ft = Some (coalesce (total_points ft0) 0
                      + calculate_fantasy_team_points d (fantasy_team_id ft0) g
                      - coalesce (gameweek_points ft0) 0) \<and>
        gameweek_points ft = Some (calculate_fantasy_team_points d (fantasy_team_id ft0) g)"
      using a b c by blast
  qed
  have t2: "map total_points (fantasy_teams d'') = map total_points (fantasy_teams d')"
  proof -
    have "map (\<lambda>ft. Some (coalesce (total_points ft) 0
                      + calculate_fantasy_team_points d' (fantasy_team_id ft) g
                      - coalesce (gameweek_points ft) 0)) (fantasy_teams d') =
          map total_points (fantasy_teams d')"
    proof (rule map_cong [OF refl])
      fix ft assume "ft \<in> set (fantasy_teams d')"
      from row [OF this] show "Some (coalesce (total_points ft) 0
                      + calculate_fantasy_team_points d' (fantasy_team_id ft) g
                      - coalesce (gameweek_points ft) 0) = total_points ft"
        by (auto simp: calc coalesce_def)
    qed
    then show ?thesis using second by simp
  qed
  have g2: "map gameweek_points (fantasy_teams d'') = map gameweek_points (fantasy_teams d')"
  proof -
    have "map (\<lambda>ft. Some (calculate_fantasy_team_points d' (fantasy_team_id ft) g))
              (fantasy_teams d') =
          map gameweek_points (fantasy_teams d')"
    proof (rule map_cong [OF refl])
      fix ft assume "ft \<in> set (fantasy_teams d')"
      from row [OF this]
      show "Some (calculate_fantasy_team_points d' (fantasy_team_id ft) g) = gameweek_points ft"
        by (auto simp: calc)
    qed
    then show ?thesis using second by simp
  qed
  show ?thesis using first d'' t2 g2 by blast
qed

theorem finalize_gameweek_totals_witness:
  "finalize_gameweek example_db 1 = Inr (db_after_finalize example_db 1) \<and>
   map total_points (fantasy_teams (db_after_finalize example_db 1)) = [Some 25] \<and>
   map gameweek_points (fantasy_teams (db_after_finalize example_db 1)) = [Some 17] \<and>
   (\<exists>d''. finalize_gameweek (db_after_finalize example_db 1) 1 = Inr d'' \<and>
      map total_points (fantasy_teams d'') = [Some 25])"
proof -
  have ok: "\<not> exists_incomplete_match example_db 1"
    by (simp add: exists_incomplete_match_def example_db_def)
  then have h: "finalize_gameweek example_db 1 = Inr (db_after_finalize example_db 1)"
    by (simp add: db_after_finalize_def finalize_gameweek_def)
  have c: "calculate_fantasy_team_points example_db 1 1 = 17"
    by code_simp
  have fts: "fantasy_teams example_db =
      [\<lparr>fantasy_team_id = 1, league_id = Some 1, total_points = Some 10,
        gameweek_points = Some 2, current_gameweek = Some 1,
        transfers_made_this_gw = Some 1, transfers_banked = Some 0, rank = None\<rparr>]"
    by (simp add: example_db_def)
  from c have c': "calculate_fantasy_team_points example_db (Suc 0) 1 = 17"
    by simp
  note tot = finalize_gameweek_totals [OF h]
  have t1: "map total_points (fantasy_teams (db_after_finalize example_db 1)) = [Some 25]"
    using tot by (simp add: fts c' coalesce_def)
  have g1: "map gameweek_points (fantasy_teams (db_after_finalize example_db 1)) = [Some 17]"
    using tot by (simp add: fts c')
  from tot obtain d'' where "finalize_gameweek (db_after_finalize example_db 1) 1 = Inr d''"
    and "map total_points (fantasy_teams d'') =
         map total_points (fantasy_teams (db_after_finalize example_db 1))"
    by blast
  then show ?thesis using h t1 g1 by auto
qed

end
